theory Spec2Isabelle
  imports Complex_Main "HOL-Library.Log_Nat"
begin

section \<open>Values\<close>

text \<open>
  Amounts are Python \<^verbatim>\<open>Decimal\<close> values. A \<^verbatim>\<open>Decimal\<close> denotes a rational number, so
  an amount is a \<^typ>\<open>rat\<close>. Addition, subtraction, \<^verbatim>\<open>min\<close>, \<^verbatim>\<open>max\<close> and the
  comparisons are exact on the amounts of the model fields (at most 12 digits, the
  context keeps 28). Multiplication and division round their result to the precision of
  the context, see \<open>context_round\<close> below. Dates are day numbers. A status is the string
  the field stores.
\<close>

type_synonym money = rat
type_synonym date = int

datatype error = TypeError | ValueError | ZeroDivisionError | ValidationError

subsection \<open>The default decimal context: 28 significant digits, half-even\<close>

definition adjusted :: "rat \<Rightarrow> int" where
  \<comment> \<open>the exponent of the leading digit of a non-zero number: \<open>10 ^ e \<le> |x| < 10 ^ (e + 1)\<close>\<close>
  "adjusted x =
     (if 1 \<le> \<bar>x\<bar> then int (floorlog 10 (nat \<lfloor>\<bar>x\<bar>\<rfloor>)) - 1
      else - int (floorlog 10 (nat (\<lceil>1 / \<bar>x\<bar>\<rceil> - 1))))"

definition round_half_even :: "rat \<Rightarrow> int" where
  "round_half_even x =
     (let f = \<lfloor>x\<rfloor>; d = x - of_int f
      in if d < 1 / 2 then f
         else if 1 / 2 < d then f + 1
         else if even f then f else f + 1)"

definition context_round :: "rat \<Rightarrow> rat" where
  "context_round x =
     (if x = 0 then 0
      else let k = 27 - adjusted x
           in if 0 \<le> k then of_int (round_half_even (x * 10 ^ nat k)) / 10 ^ nat k
              else of_int (round_half_even (x / 10 ^ nat (- k))) * 10 ^ nat (- k))"

definition decimal_mul :: "rat \<Rightarrow> rat \<Rightarrow> rat" where
  "decimal_mul a b = context_round (a * b)"

definition decimal_div :: "rat \<Rightarrow> rat \<Rightarrow> rat" where
  \<comment> \<open>every divisor in the modelled code is a non-zero literal or is tested before\<close>
  "decimal_div a b = context_round (a / b)"

subsection \<open>Python numbers and the operand types the arithmetic accepts\<close>

text \<open>
  \<^verbatim>\<open>Decimal\<close> arithmetic accepts a \<^verbatim>\<open>Decimal\<close> or an \<^verbatim>\<open>int\<close> as the other operand and
  returns \<^verbatim>\<open>NotImplemented\<close> for a \<^verbatim>\<open>float\<close>, which Python turns into a
  \<^verbatim>\<open>TypeError\<close>. The value of a float never enters a result of the model, so the float
  type \<open>'f\<close> and the true division of two integers (a parameter \<open>truediv\<close>) are left
  open. The operators are given on the operand types that occur in the modelled code and
  are unspecified on the others.
\<close>

datatype 'f number = PyInt int | PyFloat 'f | PyDecimal rat

definition and_then :: "error + 'a \<Rightarrow> ('a \<Rightarrow> error + 'b) \<Rightarrow> error + 'b" where
  "and_then r f = (case r of Inl e \<Rightarrow> Inl e | Inr x \<Rightarrow> f x)"

fun py_truediv :: "(int \<Rightarrow> int \<Rightarrow> 'f) \<Rightarrow> 'f number \<Rightarrow> 'f number \<Rightarrow> error + 'f number" where
  "py_truediv truediv (PyInt a) (PyInt b) =
     (if b = 0 then Inl ZeroDivisionError else Inr (PyFloat (truediv a b)))"
| "py_truediv truediv (PyDecimal a) (PyInt b) =
     (if b = 0 then Inl ZeroDivisionError else Inr (PyDecimal (decimal_div a (of_int b))))"
| "py_truediv truediv (PyDecimal a) (PyDecimal b) =
     (if b = 0 then Inl ZeroDivisionError else Inr (PyDecimal (decimal_div a b)))"
| "py_truediv truediv (PyDecimal a) (PyFloat b) = Inl TypeError"
| "py_truediv truediv (PyFloat a) (PyDecimal b) = Inl TypeError"

fun py_mul :: "'f number \<Rightarrow> 'f number \<Rightarrow> error + 'f number" where
  "py_mul (PyDecimal a) (PyDecimal b) = Inr (PyDecimal (decimal_mul a b))"
| "py_mul (PyDecimal a) (PyInt b) = Inr (PyDecimal (decimal_mul a (of_int b)))"
| "py_mul (PyInt a) (PyDecimal b) = Inr (PyDecimal (decimal_mul (of_int a) b))"
| "py_mul (PyInt a) (PyInt b) = Inr (PyInt (a * b))"
| "py_mul (PyDecimal a) (PyFloat b) = Inl TypeError"
| "py_mul (PyFloat a) (PyDecimal b) = Inl TypeError"

fun py_add :: "'f number \<Rightarrow> 'f number \<Rightarrow> error + 'f number" where
  "py_add (PyDecimal a) (PyDecimal b) = Inr (PyDecimal (context_round (a + b)))"
| "py_add (PyDecimal a) (PyInt b) = Inr (PyDecimal (context_round (a + of_int b)))"
| "py_add (PyInt a) (PyDecimal b) = Inr (PyDecimal (context_round (of_int a + b)))"
| "py_add (PyInt a) (PyInt b) = Inr (PyInt (a + b))"
| "py_add (PyDecimal a) (PyFloat b) = Inl TypeError"
| "py_add (PyFloat a) (PyDecimal b) = Inl TypeError"

fun py_sub :: "'f number \<Rightarrow> 'f number \<Rightarrow> error + 'f number" where
  "py_sub (PyDecimal a) (PyDecimal b) = Inr (PyDecimal (context_round (a - b)))"
| "py_sub (PyDecimal a) (PyInt b) = Inr (PyDecimal (context_round (a - of_int b)))"
| "py_sub (PyInt a) (PyDecimal b) = Inr (PyDecimal (context_round (of_int a - b)))"
| "py_sub (PyInt a) (PyInt b) = Inr (PyInt (a - b))"
| "py_sub (PyDecimal a) (PyFloat b) = Inl TypeError"
| "py_sub (PyFloat a) (PyDecimal b) = Inl TypeError"

fun py_pow :: "'f number \<Rightarrow> 'f number \<Rightarrow> error + 'f number" where
  "py_pow (PyDecimal a) (PyFloat b) = Inl TypeError"
| "py_pow (PyFloat a) (PyDecimal b) = Inl TypeError"

section \<open>Data model\<close>

record LoanType =
  interest_rate :: rat
  interest_calculation_method :: string

record LoanApplication =
  loan_type :: LoanType
  requested_amount :: money
  approved_amount :: "money option"
  term_months :: int

record Loan =
  pk :: nat
  principal_amount :: money
  total_interest :: money
  status :: string
  outstanding_balance :: money
  outstanding_interest :: money
  total_paid :: money
  penalty_balance :: money

record RepaymentTransaction =
  transaction_number :: string
  loan :: nat
  amount :: money
  principal_amount :: money
  interest_amount :: money
  penalty_amount :: money
  status :: string

record RepaymentSchedule =
  pk :: nat
  loan :: nat
  installment_number :: nat
  due_date :: date
  principal_amount :: money
  interest_amount :: money
  total_amount :: money
  principal_paid :: money
  interest_paid :: money
  penalty_paid :: money
  total_paid :: money
  principal_outstanding :: money
  interest_outstanding :: money
  penalty_outstanding :: money
  total_outstanding :: money
  status :: string
  payment_date :: "date option"
  days_overdue :: int

section \<open>Installment: \<^verbatim>\<open>RepaymentSchedule.save\<close>\<close>

definition RepaymentSchedule_save :: "date \<Rightarrow> RepaymentSchedule \<Rightarrow> RepaymentSchedule" where
  "RepaymentSchedule_save today self =
     (let self = self\<lparr>principal_outstanding := principal_amount self - principal_paid self\<rparr>;
          self = self\<lparr>interest_outstanding := interest_amount self - interest_paid self\<rparr>;
          self = self\<lparr>total_outstanding :=
                   principal_outstanding self + interest_outstanding self
                   + penalty_outstanding self - penalty_paid self\<rparr>
      in if total_amount self + penalty_outstanding self \<le> total_paid self then
           (let self = self\<lparr>status := ''paid''\<rparr>
            in if payment_date self = None then self\<lparr>payment_date := Some today\<rparr> else self)
         else if 0 < total_paid self then self\<lparr>status := ''partial''\<rparr>
         else if due_date self < today then
           self\<lparr>status := ''overdue'', days_overdue := today - due_date self\<rparr>
         else self\<lparr>status := ''pending''\<rparr>)"

section \<open>Payment allocator: \<^verbatim>\<open>RepaymentTransaction.allocate_to_schedules\<close>\<close>

text \<open>The local variables of the loop body, as functions of the remaining amount and the row.\<close>

definition schedule_outstanding :: "RepaymentSchedule \<Rightarrow> money" where
  "schedule_outstanding schedule = total_outstanding schedule + penalty_outstanding schedule"

definition payment_for_schedule :: "money \<Rightarrow> RepaymentSchedule \<Rightarrow> money" where
  "payment_for_schedule remaining_amount schedule =
     min remaining_amount (schedule_outstanding schedule)"

definition penalty_payment :: "money \<Rightarrow> RepaymentSchedule \<Rightarrow> money" where
  "penalty_payment remaining_amount schedule =
     min (payment_for_schedule remaining_amount schedule) (penalty_outstanding schedule)"

definition interest_payment :: "money \<Rightarrow> RepaymentSchedule \<Rightarrow> money" where
  "interest_payment remaining_amount schedule =
     min (payment_for_schedule remaining_amount schedule - penalty_payment remaining_amount schedule)
         (interest_outstanding schedule)"

definition principal_payment :: "money \<Rightarrow> RepaymentSchedule \<Rightarrow> money" where
  "principal_payment remaining_amount schedule =
     min (payment_for_schedule remaining_amount schedule - penalty_payment remaining_amount schedule
            - interest_payment remaining_amount schedule)
         (principal_outstanding schedule)"

definition allocated :: "money \<Rightarrow> RepaymentSchedule \<Rightarrow> money" where
  "allocated remaining_amount schedule =
     penalty_payment remaining_amount schedule + interest_payment remaining_amount schedule
       + principal_payment remaining_amount schedule"

definition pay :: "date \<Rightarrow> money \<Rightarrow> RepaymentSchedule \<Rightarrow> RepaymentSchedule" where
  \<comment> \<open>the body under \<^verbatim>\<open>if payment_for_schedule > 0\<close>, up to and including \<^verbatim>\<open>schedule.save()\<close>\<close>
  "pay today remaining_amount schedule =
     RepaymentSchedule_save today
       (schedule\<lparr>penalty_paid := penalty_paid schedule + penalty_payment remaining_amount schedule,
                 interest_paid := interest_paid schedule + interest_payment remaining_amount schedule,
                 principal_paid := principal_paid schedule + principal_payment remaining_amount schedule,
                 total_paid := total_paid schedule + allocated remaining_amount schedule\<rparr>)"

definition db_save :: "RepaymentSchedule \<Rightarrow> RepaymentSchedule list \<Rightarrow> RepaymentSchedule list" where
  \<comment> \<open>the row with the primary key of \<open>r\<close> is overwritten\<close>
  "db_save r table = map (\<lambda>x. if pk x = pk r then r else x) table"

fun allocate_loop ::
  "date \<Rightarrow> money \<Rightarrow> RepaymentSchedule list \<Rightarrow> RepaymentSchedule list
     \<Rightarrow> RepaymentSchedule list \<times> money" where
  "allocate_loop today remaining_amount [] table = (table, remaining_amount)"
| "allocate_loop today remaining_amount (schedule # schedules) table =
     (if remaining_amount \<le> 0 then (table, remaining_amount)
      else if 0 < payment_for_schedule remaining_amount schedule then
        allocate_loop today (remaining_amount - allocated remaining_amount schedule) schedules
          (db_save (pay today remaining_amount schedule) table)
      else allocate_loop today remaining_amount schedules table)"

definition selected :: "nat \<Rightarrow> RepaymentSchedule list \<Rightarrow> RepaymentSchedule list" where
  \<comment> \<open>\<^verbatim>\<open>filter(loan=..., status__in=[...]).order_by('due_date')\<close>\<close>
  "selected loan_id table =
     sort_key due_date
       (filter (\<lambda>s. loan s = loan_id \<and> status s \<in> set [''pending'', ''partial'', ''overdue''])
          table)"

definition allocate_to_schedules ::
  "date \<Rightarrow> RepaymentTransaction \<Rightarrow> RepaymentSchedule list \<Rightarrow> RepaymentSchedule list" where
  "allocate_to_schedules today self table =
     fst (allocate_loop today (amount self)
            (selected (RepaymentTransaction.loan self) table) table)"

subsection \<open>Reading the table, and the rows the loop holds\<close>

text \<open>
  \<open>get\<close> reads a row by primary key. \<open>allocate_rows\<close> is the list of the loop's row
  objects after the loop; \<open>loop_get_row\<close> below shows that these are the rows the table
  holds afterwards. \<open>covered\<close> says when a later row can still receive money after a row:
  the row got its whole \<open>schedule_outstanding\<close>, or each of its three parts was paid up to
  its cap, or it had nothing outstanding.
\<close>

definition get :: "nat \<Rightarrow> RepaymentSchedule list \<Rightarrow> RepaymentSchedule option" where
  "get k table = find (\<lambda>x. RepaymentSchedule.pk x = k) table"

fun allocate_rows :: "date \<Rightarrow> money \<Rightarrow> RepaymentSchedule list \<Rightarrow> RepaymentSchedule list" where
  "allocate_rows today remaining_amount [] = []"
| "allocate_rows today remaining_amount (schedule # schedules) =
     (if remaining_amount \<le> 0 then schedule # schedules
      else if 0 < payment_for_schedule remaining_amount schedule then
        pay today remaining_amount schedule
          # allocate_rows today (remaining_amount - allocated remaining_amount schedule) schedules
      else schedule # allocate_rows today remaining_amount schedules)"

definition covered :: "RepaymentSchedule \<Rightarrow> RepaymentSchedule \<Rightarrow> bool" where
  "covered before after \<longleftrightarrow>
     total_paid after - total_paid before = schedule_outstanding before
     \<or> (penalty_paid after - penalty_paid before = penalty_outstanding before
        \<and> interest_paid after - interest_paid before = interest_outstanding before
        \<and> principal_paid after - principal_paid before = principal_outstanding before)
     \<or> schedule_outstanding before \<le> 0"

section \<open>Ledger update: \<^verbatim>\<open>RepaymentTransaction.update_loan_balances\<close>\<close>

text \<open>
  \<open>loan_row\<close> is the row the transaction's foreign key refers to. \<^verbatim>\<open>Loan.save\<close> only fills
  in a missing loan number and missing dates, fields the record does not carry.
\<close>

definition update_loan_balances ::
  "date \<Rightarrow> RepaymentTransaction \<Rightarrow> Loan \<Rightarrow> RepaymentSchedule list
     \<Rightarrow> Loan \<times> RepaymentSchedule list" where
  "update_loan_balances today self loan_row table =
     (let loan = loan_row\<lparr>Loan.total_paid := Loan.total_paid loan_row + amount self\<rparr>;
          loan = loan\<lparr>outstanding_balance :=
                   outstanding_balance loan - RepaymentTransaction.principal_amount self\<rparr>;
          loan = loan\<lparr>outstanding_interest :=
                   outstanding_interest loan - RepaymentTransaction.interest_amount self\<rparr>;
          loan = loan\<lparr>penalty_balance := penalty_balance loan - penalty_amount self\<rparr>;
          loan = loan\<lparr>outstanding_balance := max (outstanding_balance loan) 0\<rparr>;
          loan = loan\<lparr>outstanding_interest := max (outstanding_interest loan) 0\<rparr>;
          loan = loan\<lparr>penalty_balance := max (penalty_balance loan) 0\<rparr>;
          total = outstanding_balance loan + outstanding_interest loan + penalty_balance loan;
          loan = (if total \<le> 1 then loan\<lparr>Loan.status := ''completed''\<rparr> else loan)
      in (loan, allocate_to_schedules today self table))"

section \<open>\<^verbatim>\<open>RepaymentTransaction.save\<close> and the validator of \<^verbatim>\<open>amount\<close>\<close>

definition MinValueValidator :: "rat \<Rightarrow> rat \<Rightarrow> error + unit" where
  "MinValueValidator limit_value a = (if a < limit_value then Inl ValidationError else Inr ())"

definition validate_amount :: "RepaymentTransaction \<Rightarrow> error + unit" where
  \<comment> \<open>\<^verbatim>\<open>validators=[MinValueValidator(0)]\<close>, run by model validation and not by \<^verbatim>\<open>save\<close>\<close>
  "validate_amount self = MinValueValidator 0 (amount self)"

text \<open>
  \<open>generated\<close> is the outcome of the block that builds a transaction number from the clock
  and the latest stored number (it raises \<^verbatim>\<open>ValueError\<close> when the last four characters of
  that number are not an integer literal). The block runs only for an empty number.
\<close>

definition RepaymentTransaction_save ::
  "error + string \<Rightarrow> date \<Rightarrow> RepaymentTransaction \<Rightarrow> Loan \<Rightarrow> RepaymentSchedule list
     \<Rightarrow> error + RepaymentTransaction \<times> Loan \<times> RepaymentSchedule list" where
  "RepaymentTransaction_save generated today self loan_row table =
     and_then (if transaction_number self = [] then generated else Inr (transaction_number self))
       (\<lambda>n. let self = self\<lparr>transaction_number := n\<rparr>
            in if RepaymentTransaction.status self = ''completed'' then
                 (case update_loan_balances today self loan_row table of
                    (loan', table') \<Rightarrow> Inr (self, loan', table'))
               else Inr (self, loan_row, table))"

section \<open>Loans: completion percentage and the admin action\<close>

definition completion_percentage :: "Loan \<Rightarrow> rat" where
  "completion_percentage self =
     (if Loan.principal_amount self + total_interest self = 0 then 0
      else let total_loan = Loan.principal_amount self + total_interest self
           in decimal_mul (decimal_div (Loan.total_paid self) total_loan) 100)"

definition mark_as_completed :: "Loan list \<Rightarrow> Loan list \<times> nat" where
  \<comment> \<open>\<^verbatim>\<open>queryset.filter(status='active').update(status='completed')\<close>: the rows and the count\<close>
  "mark_as_completed queryset =
     (map (\<lambda>l. if Loan.status l = ''active'' then l\<lparr>Loan.status := ''completed''\<rparr> else l) queryset,
      length (filter (\<lambda>l. Loan.status l = ''active'') queryset))"

section \<open>Interest of a loan application: \<^verbatim>\<open>LoanApplication.calculated_interest\<close>\<close>

definition calculated_interest :: "(int \<Rightarrow> int \<Rightarrow> 'f) \<Rightarrow> LoanApplication \<Rightarrow> error + 'f number" where
  "calculated_interest truediv self =
     (let amount = (case approved_amount self of
                      None \<Rightarrow> requested_amount self
                    | Some a \<Rightarrow> if a = 0 then requested_amount self else a);
          method = interest_calculation_method (loan_type self)
      in and_then (py_truediv truediv (PyDecimal (interest_rate (loan_type self))) (PyInt 100))
           (\<lambda>rate.
              if method = ''flat'' then
                and_then (py_mul (PyDecimal amount) rate)
                  (\<lambda>x. and_then (py_truediv truediv (PyInt (term_months self)) (PyInt 12))
                         (\<lambda>y. py_mul x y))
              else if method = ''reducing'' then
                and_then (py_truediv truediv rate (PyInt 12))
                  (\<lambda>monthly_rate. and_then (py_mul (PyDecimal amount) monthly_rate)
                         (\<lambda>x. py_mul x (PyInt (term_months self))))
              else
                and_then (py_add (PyInt 1) rate)
                  (\<lambda>b. and_then (py_truediv truediv (PyInt (term_months self)) (PyInt 12))
                         (\<lambda>e. and_then (py_pow b e)
                                (\<lambda>p. and_then (py_sub p (PyInt 1))
                                       (\<lambda>q. py_mul (PyDecimal amount) q))))))"

section \<open>Example rows\<close>

definition example_installment :: RepaymentSchedule where
  "example_installment =
     \<lparr>RepaymentSchedule.pk = 1, loan = 7, installment_number = 1, due_date = 31,
      principal_amount = 1000, interest_amount = 200, total_amount = 1200,
      principal_paid = 0, interest_paid = 0, penalty_paid = 0, total_paid = 0,
      principal_outstanding = 1000, interest_outstanding = 200, penalty_outstanding = 50,
      total_outstanding = 1250, status = ''overdue'', payment_date = None, days_overdue = 9\<rparr>"

definition january :: RepaymentSchedule where
  "january =
     \<lparr>RepaymentSchedule.pk = 1, loan = 7, installment_number = 1, due_date = 31,
      principal_amount = 400, interest_amount = 100, total_amount = 500,
      principal_paid = 0, interest_paid = 0, penalty_paid = 0, total_paid = 0,
      principal_outstanding = 400, interest_outstanding = 100, penalty_outstanding = 0,
      total_outstanding = 500, status = ''overdue'', payment_date = None, days_overdue = 5\<rparr>"

definition february :: RepaymentSchedule where
  "february =
     \<lparr>RepaymentSchedule.pk = 2, loan = 7, installment_number = 2, due_date = 59,
      principal_amount = 400, interest_amount = 100, total_amount = 500,
      principal_paid = 0, interest_paid = 0, penalty_paid = 0, total_paid = 0,
      principal_outstanding = 400, interest_outstanding = 100, penalty_outstanding = 0,
      total_outstanding = 500, status = ''pending'', payment_date = None, days_overdue = 0\<rparr>"

definition december :: RepaymentSchedule where
  "december =
     \<lparr>RepaymentSchedule.pk = 3, loan = 7, installment_number = 0, due_date = 0,
      principal_amount = 400, interest_amount = 100, total_amount = 500,
      principal_paid = 400, interest_paid = 100, penalty_paid = 0, total_paid = 500,
      principal_outstanding = 0, interest_outstanding = 0, penalty_outstanding = 0,
      total_outstanding = 0, status = ''paid'', payment_date = Some 0, days_overdue = 0\<rparr>"

definition payment :: "money \<Rightarrow> RepaymentTransaction" where
  "payment a =
     \<lparr>transaction_number = ''TXN202401050001'', loan = 7, amount = a,
      principal_amount = 0, interest_amount = 0, penalty_amount = 0, status = ''completed''\<rparr>"

definition second_installment :: RepaymentSchedule where
  "second_installment =
     example_installment\<lparr>RepaymentSchedule.pk := 2, installment_number := 2, due_date := 59,
       status := ''pending'', days_overdue := 0\<rparr>"

definition example_loan :: Loan where
  "example_loan =
     \<lparr>Loan.pk = 7, principal_amount = 1000, total_interest = 200, status = ''active'',
      outstanding_balance = 1000, outstanding_interest = 200, total_paid = 0,
      penalty_balance = 50\<rparr>"

definition example_application :: "string \<Rightarrow> LoanApplication" where
  "example_application method =
     \<lparr>loan_type = \<lparr>interest_rate = 10, interest_calculation_method = method\<rparr>,
      requested_amount = 1000, approved_amount = None, term_months = 12\<rparr>"

text \<open>
  The example installment as \<open>n\<close> payments of 50 leave it (lemma \<open>reached\<close>): each of
  them went to the penalty.
\<close>

definition after_penalty_payments :: "nat \<Rightarrow> RepaymentSchedule" where
  "after_penalty_payments n =
     example_installment\<lparr>penalty_paid := 50 * of_nat n, total_paid := 50 * of_nat n,
       total_outstanding := 1250 - 50 * of_nat n,
       status := (if n = 0 then ''overdue'' else ''partial'')\<rparr>"

section \<open>Properties\<close>

subsection \<open>Saving an installment, paying one installment\<close>

lemma save_keeps:
  "RepaymentSchedule.pk (RepaymentSchedule_save today s) = RepaymentSchedule.pk s"
  "loan (RepaymentSchedule_save today s) = loan s"
  "due_date (RepaymentSchedule_save today s) = due_date s"
  "principal_amount (RepaymentSchedule_save today s) = principal_amount s"
  "interest_amount (RepaymentSchedule_save today s) = interest_amount s"
  "total_amount (RepaymentSchedule_save today s) = total_amount s"
  "principal_paid (RepaymentSchedule_save today s) = principal_paid s"
  "interest_paid (RepaymentSchedule_save today s) = interest_paid s"
  "penalty_paid (RepaymentSchedule_save today s) = penalty_paid s"
  "total_paid (RepaymentSchedule_save today s) = total_paid s"
  "penalty_outstanding (RepaymentSchedule_save today s) = penalty_outstanding s"
  by (simp_all add: RepaymentSchedule_save_def Let_def)

lemma save_outstanding:
  "principal_outstanding (RepaymentSchedule_save today s) = principal_amount s - principal_paid s"
  "interest_outstanding (RepaymentSchedule_save today s) = interest_amount s - interest_paid s"
  "total_outstanding (RepaymentSchedule_save today s) =
     (principal_amount s - principal_paid s) + (interest_amount s - interest_paid s)
       + penalty_outstanding s - penalty_paid s"
  by (simp_all add: RepaymentSchedule_save_def Let_def)

lemma pay_paid:
  "penalty_paid (pay today r s) = penalty_paid s + penalty_payment r s"
  "interest_paid (pay today r s) = interest_paid s + interest_payment r s"
  "principal_paid (pay today r s) = principal_paid s + principal_payment r s"
  "total_paid (pay today r s) = total_paid s + allocated r s"
  "RepaymentSchedule.pk (pay today r s) = RepaymentSchedule.pk s"
  "penalty_outstanding (pay today r s) = penalty_outstanding s"
  by (simp_all add: pay_def save_keeps)


text \<open>
  The loop body splits its budget \<open>payment_for_schedule\<close> over the stored fields in the
  order penalty, interest, principal, each part capped by a \<open>min\<close>.
\<close>

lemma pay_splits_budget:
  "penalty_paid (pay today r s) - penalty_paid s
     = min (payment_for_schedule r s) (penalty_outstanding s)
   \<and> interest_paid (pay today r s) - interest_paid s
     = min (payment_for_schedule r s - (penalty_paid (pay today r s) - penalty_paid s))
         (interest_outstanding s)
   \<and> principal_paid (pay today r s) - principal_paid s
     = min (payment_for_schedule r s - (penalty_paid (pay today r s) - penalty_paid s)
              - (interest_paid (pay today r s) - interest_paid s))
         (principal_outstanding s)
   \<and> (penalty_paid (pay today r s) - penalty_paid s < penalty_outstanding s
        \<longrightarrow> interest_paid (pay today r s) - interest_paid s \<le> 0)
   \<and> (interest_paid (pay today r s) - interest_paid s < interest_outstanding s
        \<longrightarrow> principal_paid (pay today r s) - principal_paid s \<le> 0)"
  by (auto simp add: pay_paid penalty_payment_def interest_payment_def principal_payment_def
      payment_for_schedule_def schedule_outstanding_def)

lemma get_db_save:
  "get k (db_save r tbl) =
     (if k = RepaymentSchedule.pk r then (case get k tbl of None \<Rightarrow> None | Some x \<Rightarrow> Some r)
      else get k tbl)"
  by (induction tbl) (auto simp add: get_def db_save_def)

lemma get_in_table:
  "distinct (map RepaymentSchedule.pk tbl) \<Longrightarrow> s \<in> set tbl \<Longrightarrow> get (RepaymentSchedule.pk s) tbl = Some s"
  by (induction tbl) (auto simp add: get_def)

lemma loop_nonpos: "r \<le> 0 \<Longrightarrow> allocate_loop today r ss tbl = (tbl, r)"
  by (cases ss) simp_all

lemma rows_nonpos: "r \<le> 0 \<Longrightarrow> allocate_rows today r ss = ss"
  by (cases ss) simp_all

lemma rows_length: "length (allocate_rows today r ss) = length ss"
  by (induction ss arbitrary: r) simp_all

lemma loop_get_other:
  "k \<notin> RepaymentSchedule.pk ` set ss \<Longrightarrow> get k (fst (allocate_loop today r ss tbl)) = get k tbl"
  by (induction ss arbitrary: r tbl) (auto simp add: get_db_save pay_paid)

lemma loop_get_row:
  assumes "distinct (map RepaymentSchedule.pk ss)"
    and "\<And>s. s \<in> set ss \<Longrightarrow> get (RepaymentSchedule.pk s) tbl = Some s"
    and "i < length ss"
  shows "get (RepaymentSchedule.pk (ss ! i)) (fst (allocate_loop today r ss tbl))
           = Some (allocate_rows today r ss ! i)"
  using assms
proof (induction ss arbitrary: r tbl i)
  case Nil
  then show ?case by simp
next
  case (Cons s ss)
  show ?case
  proof (cases "r \<le> 0")
    case True
    have "(s # ss) ! i \<in> set (s # ss)" using Cons.prems(3) by (simp only: nth_mem)
    from Cons.prems(2)[OF this] show ?thesis
      using True by (simp only: loop_nonpos rows_nonpos fst_conv)
  next
    case False
    note pos = this
    have notin: "RepaymentSchedule.pk s \<notin> RepaymentSchedule.pk ` set ss"
      using Cons.prems(1) by auto
    have dist: "distinct (map RepaymentSchedule.pk ss)" using Cons.prems(1) by simp
    show ?thesis
    proof (cases "0 < payment_for_schedule r s")
      case True
      let ?tbl = "db_save (pay today r s) tbl"
      have rows: "\<And>x. x \<in> set ss \<Longrightarrow> get (RepaymentSchedule.pk x) ?tbl = Some x"
      proof -
        fix x assume x: "x \<in> set ss"
        then have "RepaymentSchedule.pk x \<noteq> RepaymentSchedule.pk s" using notin by (metis imageI)
        then show "get (RepaymentSchedule.pk x) ?tbl = Some x"
          using Cons.prems(2)[of x] x by (simp add: get_db_save pay_paid)
      qed
      show ?thesis
      proof (cases i)
        case 0
        then show ?thesis using pos True notin Cons.prems(2)[of s]
          by (simp add: loop_get_other get_db_save pay_paid)
      next
        case (Suc j)
        then have "j < length ss" using Cons.prems(3) by simp
        from Cons.IH[OF dist rows this] show ?thesis using pos True Suc by simp
      qed
    next
      case False
      show ?thesis
      proof (cases i)
        case 0
        then show ?thesis using pos False notin Cons.prems(2)[of s]
          by (simp add: loop_get_other)
      next
        case (Suc j)
        then have "j < length ss" using Cons.prems(3) by simp
        from Cons.IH[OF dist _ this, of tbl] Cons.prems(2) show ?thesis
          using pos False Suc by simp
      qed
    qed
  qed
qed

lemma allocated_le: "allocated r s \<le> payment_for_schedule r s"
  by (simp add: allocated_def penalty_payment_def interest_payment_def principal_payment_def)

lemma pay_covered:
  assumes "0 < r" "0 < payment_for_schedule r s" "0 < r - allocated r s"
    and "0 \<le> interest_outstanding s" "0 \<le> principal_outstanding s"
  shows "covered s (pay today r s)"
  using assms
  unfolding covered_def pay_paid allocated_def penalty_payment_def interest_payment_def
    principal_payment_def payment_for_schedule_def
  by (auto simp add: min_def split: if_splits)

lemma rows_changed_later:
  assumes "i < j" "j < length ss" "allocate_rows today r ss ! j \<noteq> ss ! j"
    and "0 \<le> interest_outstanding (ss ! i)" "0 \<le> principal_outstanding (ss ! i)"
  shows "covered (ss ! i) (allocate_rows today r ss ! i)"
  using assms
proof (induction ss arbitrary: r i j)
  case Nil
  then show ?case by simp
next
  case (Cons s ss)
  obtain j' where j: "j = Suc j'" using Cons.prems(1) by (cases j) auto
  have pos: "0 < r" using Cons.prems(3) rows_nonpos[of r today "s # ss"] by (cases "r \<le> 0") auto
  let ?r' = "if 0 < payment_for_schedule r s then r - allocated r s else r"
  have rest: "allocate_rows today r (s # ss) ! Suc k = allocate_rows today ?r' ss ! k" for k
    using pos by simp
  have changed: "allocate_rows today ?r' ss ! j' \<noteq> ss ! j'"
    using Cons.prems(3) j rest by simp
  then have pos': "0 < ?r'" using rows_nonpos[of ?r' today ss] by (cases "?r' \<le> 0") auto
  show ?case
  proof (cases i)
    case 0
    show ?thesis
    proof (cases "0 < payment_for_schedule r s")
      case True
      then show ?thesis using 0 pos pos' Cons.prems(4,5) by (simp add: pay_covered)
    next
      case False
      then have "schedule_outstanding s \<le> 0" using pos by (simp add: payment_for_schedule_def min_def split: if_splits)
      then show ?thesis using 0 pos False by (simp add: covered_def)
    qed
  next
    case (Suc i')
    have "covered (ss ! i') (allocate_rows today ?r' ss ! i')"
      using Cons.IH[of i' j' ?r'] Cons.prems j Suc changed by simp
    then show ?thesis using Suc rest by simp
  qed
qed

subsection \<open>The whole payment: selection, order and the table afterwards\<close>

lemma selected_example: "selected 7 [february, december, january] = [january, february]"
  by (simp add: selected_def january_def february_def december_def)

lemma example_600:
  "map (\<lambda>s. (RepaymentSchedule.pk s, total_paid s, status s))
       (allocate_to_schedules today (payment 600) [february, december, january])
     = [(2, 100, ''partial''), (3, 500, ''paid''), (1, 500, ''paid'')]"
  by (simp add: allocate_to_schedules_def selected_example payment_def)
     (simp add: january_def february_def december_def payment_for_schedule_def schedule_outstanding_def
        allocated_def penalty_payment_def interest_payment_def principal_payment_def pay_def
        RepaymentSchedule_save_def db_save_def)

lemma set_selected:
  "set (selected L table) =
     {s \<in> set table. loan s = L \<and> (status s = ''pending'' \<or> status s = ''partial'' \<or> status s = ''overdue'')}"
  by (auto simp add: selected_def)

lemma sorted_selected: "sorted (map due_date (selected L table))"
  by (simp add: selected_def)

lemma distinct_selected:
  assumes "distinct (map RepaymentSchedule.pk table)"
  shows "distinct (map RepaymentSchedule.pk (selected L table))"
proof -
  have "distinct table" and inj: "inj_on RepaymentSchedule.pk (set table)"
    using assms by (simp_all add: distinct_map)
  then have "distinct (selected L table)" by (simp add: selected_def)
  moreover have "inj_on RepaymentSchedule.pk (set (selected L table))"
    using inj by (rule inj_on_subset) (auto simp add: selected_def)
  ultimately show ?thesis by (simp add: distinct_map)
qed

lemma rows_step:
  "i < length ss \<Longrightarrow>
   allocate_rows today r ss ! i = ss ! i
   \<or> (\<exists>q. 0 < payment_for_schedule q (ss ! i) \<and> allocate_rows today r ss ! i = pay today q (ss ! i))"
proof (induction ss arbitrary: r i)
  case Nil
  then show ?case by simp
next
  case (Cons s ss)
  show ?case
  proof (cases i)
    case 0
    then show ?thesis by auto
  next
    case (Suc j)
    then have "j < length ss" using Cons.prems by simp
    from Cons.IH[OF this] show ?thesis using Suc by auto
  qed
qed

lemma final_unselected:
  assumes "distinct (map RepaymentSchedule.pk table)" "s \<in> set table"
    "s \<notin> set (selected (RepaymentTransaction.loan self) table)"
  shows "get (RepaymentSchedule.pk s) (allocate_to_schedules today self table) = Some s"
proof -
  have "RepaymentSchedule.pk s \<notin> RepaymentSchedule.pk ` set (selected (RepaymentTransaction.loan self) table)"
  proof
    assume "RepaymentSchedule.pk s \<in> RepaymentSchedule.pk ` set (selected (RepaymentTransaction.loan self) table)"
    then obtain x where x: "x \<in> set (selected (RepaymentTransaction.loan self) table)"
      and "RepaymentSchedule.pk x = RepaymentSchedule.pk s" by force
    moreover have "x \<in> set table" using x by (simp add: set_selected)
    ultimately have "x = s" using assms(1,2) by (metis distinct_map inj_onD)
    then show False using x assms(3) by simp
  qed
  then show ?thesis
    using assms(1,2) by (simp add: allocate_to_schedules_def loop_get_other get_in_table)
qed

lemma final_selected:
  assumes "distinct (map RepaymentSchedule.pk table)"
    and "i < length (selected (RepaymentTransaction.loan self) table)"
  shows "get (RepaymentSchedule.pk (selected (RepaymentTransaction.loan self) table ! i))
           (allocate_to_schedules today self table)
         = Some (allocate_rows today (amount self) (selected (RepaymentTransaction.loan self) table) ! i)"
  unfolding allocate_to_schedules_def
proof (rule loop_get_row)
  show "distinct (map RepaymentSchedule.pk (selected (RepaymentTransaction.loan self) table))"
    using assms(1) by (rule distinct_selected)
  show "i < length (selected (RepaymentTransaction.loan self) table)" by (rule assms(2))
  fix s assume "s \<in> set (selected (RepaymentTransaction.loan self) table)"
  then have "s \<in> set table" by (simp add: set_selected)
  then show "get (RepaymentSchedule.pk s) table = Some s" using assms(1) by (rule get_in_table[rotated])
qed


text \<open>
  On a table with distinct primary keys the allocator takes the rows of the loan whose
  status is pending, partial or overdue, in ascending order of due date, and leaves every
  other row as it is. A later row is changed only if every earlier row with non-negative
  interest and principal outstanding is \<open>covered\<close>. The loop changes nothing once the
  remaining amount is not positive.
\<close>

lemma allocator_order:
  assumes "distinct (map RepaymentSchedule.pk table)"
  shows
    "set (selected (RepaymentTransaction.loan self) table)
       = {s \<in> set table. loan s = RepaymentTransaction.loan self
            \<and> (status s = ''pending'' \<or> status s = ''partial'' \<or> status s = ''overdue'')}
     \<and> sorted (map due_date (selected (RepaymentTransaction.loan self) table))
     \<and> (\<forall>s. s \<in> set table \<and> s \<notin> set (selected (RepaymentTransaction.loan self) table)
            \<longrightarrow> get (RepaymentSchedule.pk s) (allocate_to_schedules today self table) = Some s)
     \<and> (\<forall>i j. i < j \<and> j < length (selected (RepaymentTransaction.loan self) table)
            \<and> get (RepaymentSchedule.pk (selected (RepaymentTransaction.loan self) table ! j))
                  (allocate_to_schedules today self table)
                \<noteq> Some (selected (RepaymentTransaction.loan self) table ! j)
            \<and> 0 \<le> interest_outstanding (selected (RepaymentTransaction.loan self) table ! i)
            \<and> 0 \<le> principal_outstanding (selected (RepaymentTransaction.loan self) table ! i)
            \<longrightarrow> (\<exists>after.
                   get (RepaymentSchedule.pk (selected (RepaymentTransaction.loan self) table ! i))
                     (allocate_to_schedules today self table) = Some after
                   \<and> covered (selected (RepaymentTransaction.loan self) table ! i) after))
     \<and> (\<forall>r ss tbl. r \<le> 0 \<longrightarrow> allocate_loop today r ss tbl = (tbl, r))
     \<and> map (\<lambda>s. (RepaymentSchedule.pk s, total_paid s, status s))
           (allocate_to_schedules today (payment 600) [february, december, january])
         = [(2, 100, ''partial''), (3, 500, ''paid''), (1, 500, ''paid'')]"
proof -
  let ?sel = "selected (RepaymentTransaction.loan self) table"
  let ?final = "allocate_to_schedules today self table"
  have later: "\<exists>after. get (RepaymentSchedule.pk (?sel ! i)) ?final = Some after \<and> covered (?sel ! i) after"
    if "i < j" "j < length ?sel"
      "get (RepaymentSchedule.pk (?sel ! j)) ?final \<noteq> Some (?sel ! j)"
      "0 \<le> interest_outstanding (?sel ! i)" "0 \<le> principal_outstanding (?sel ! i)" for i j
  proof -
    have i: "i < length ?sel" using that(1,2) by simp
    have "allocate_rows today (amount self) ?sel ! j \<noteq> ?sel ! j"
      using that(3) final_selected[OF assms that(2), of today] by simp
    then have "covered (?sel ! i) (allocate_rows today (amount self) ?sel ! i)"
      using that by (intro rows_changed_later[of i j]) simp_all
    then show ?thesis using final_selected[OF assms i, of today] by simp
  qed
  have unsel: "get (RepaymentSchedule.pk s) ?final = Some s"
    if "s \<in> set table \<and> s \<notin> set ?sel" for s
    using that final_unselected[OF assms, of s self today] by simp
  show ?thesis
  proof (intro conjI allI impI)
    show "set ?sel = {s \<in> set table. loan s = RepaymentTransaction.loan self
            \<and> (status s = ''pending'' \<or> status s = ''partial'' \<or> status s = ''overdue'')}"
      by (rule set_selected)
    show "sorted (map due_date ?sel)" by (rule sorted_selected)
    show "get (RepaymentSchedule.pk s) ?final = Some s" if "s \<in> set table \<and> s \<notin> set ?sel" for s
      using that by (rule unsel)
    show "\<exists>after. get (RepaymentSchedule.pk (?sel ! i)) ?final = Some after \<and> covered (?sel ! i) after"
      if "i < j \<and> j < length ?sel
            \<and> get (RepaymentSchedule.pk (?sel ! j)) ?final \<noteq> Some (?sel ! j)
            \<and> 0 \<le> interest_outstanding (?sel ! i)
            \<and> 0 \<le> principal_outstanding (?sel ! i)" for i j
      using that later[of i j] by simp
    show "allocate_loop today r ss tbl = (tbl, r)" if "r \<le> 0" for r ss tbl
      using that by (rule loop_nonpos)
    show "map (\<lambda>s. (RepaymentSchedule.pk s, total_paid s, status s))
           (allocate_to_schedules today (payment 600) [february, december, january])
         = [(2, 100, ''partial''), (3, 500, ''paid''), (1, 500, ''paid'')]"
      by (rule example_600)
  qed
qed

text \<open>
  What the loop allocates to a row never exceeds the budget it computes for the row,
  \<open>total_outstanding + penalty_outstanding\<close>.
\<close>

lemma allocation_within_budget:
  "(0 < payment_for_schedule r s
      \<longrightarrow> (penalty_paid (pay today r s) - penalty_paid s)
            + (interest_paid (pay today r s) - interest_paid s)
            + (principal_paid (pay today r s) - principal_paid s)
          \<le> total_outstanding s + penalty_outstanding s)
   \<and> (distinct (map RepaymentSchedule.pk table) \<and> x \<in> set table
        \<and> get (RepaymentSchedule.pk x) (allocate_to_schedules today self table) = Some y
        \<and> y \<noteq> x
      \<longrightarrow> (penalty_paid y - penalty_paid x) + (interest_paid y - interest_paid x)
            + (principal_paid y - principal_paid x)
          \<le> total_outstanding x + penalty_outstanding x)"
proof (intro conjI impI)
  have step: "(penalty_paid (pay today q z) - penalty_paid z)
            + (interest_paid (pay today q z) - interest_paid z)
            + (principal_paid (pay today q z) - principal_paid z)
          \<le> total_outstanding z + penalty_outstanding z" for q z
    using allocated_le[of q z]
    by (simp add: pay_paid allocated_def payment_for_schedule_def schedule_outstanding_def)
  show "(penalty_paid (pay today r s) - penalty_paid s)
            + (interest_paid (pay today r s) - interest_paid s)
            + (principal_paid (pay today r s) - principal_paid s)
          \<le> total_outstanding s + penalty_outstanding s"
    by (rule step)
  assume a: "distinct (map RepaymentSchedule.pk table) \<and> x \<in> set table
        \<and> get (RepaymentSchedule.pk x) (allocate_to_schedules today self table) = Some y
        \<and> y \<noteq> x"
  let ?sel = "selected (RepaymentTransaction.loan self) table"
  have d: "distinct (map RepaymentSchedule.pk table)" using a by simp
  have "x \<in> set ?sel"
    using a final_unselected[OF d, of x self today] by auto
  then obtain i where i: "i < length ?sel" and x: "?sel ! i = x"
    by (auto simp add: in_set_conv_nth)
  have y: "y = allocate_rows today (amount self) ?sel ! i"
    using final_selected[OF d i, of today] a x by simp
  with rows_step[OF i, of today "amount self"] a x
  obtain q where "y = pay today q x" by auto
  then show "(penalty_paid y - penalty_paid x) + (interest_paid y - interest_paid x)
            + (principal_paid y - principal_paid x)
          \<le> total_outstanding x + penalty_outstanding x"
    using step[of q x] by simp
qed

subsection \<open>A penalty that has been paid\<close>

lemma after_penalty_payments_0: "after_penalty_payments 0 = example_installment"
  by (simp add: after_penalty_payments_def example_installment_def)

lemma pay_penalty_again:
  assumes "n < 24"
  shows "pay today 50 (after_penalty_payments n) = after_penalty_payments (Suc n)"
proof -
  have n: "(of_nat n :: rat) < 24" "(0::rat) \<le> of_nat n"
    using assms by (simp_all add: of_nat_less_numeral_iff)
  then show ?thesis
    by (simp add: after_penalty_payments_def example_installment_def pay_def
        RepaymentSchedule_save_def allocated_def penalty_payment_def interest_payment_def
        principal_payment_def payment_for_schedule_def schedule_outstanding_def min_def
        algebra_simps)
qed

lemma budget_penalty_again:
  assumes "n < 24"
  shows "0 < payment_for_schedule 50 (after_penalty_payments n)"
    and "allocated 50 (after_penalty_payments n) = 50"
proof -
  have n: "(of_nat n :: rat) < 24" "(0::rat) \<le> of_nat n"
    using assms by (simp_all add: of_nat_less_numeral_iff)
  then show "0 < payment_for_schedule 50 (after_penalty_payments n)"
    and "allocated 50 (after_penalty_payments n) = 50"
    by (simp_all add: after_penalty_payments_def example_installment_def allocated_def
        penalty_payment_def interest_payment_def principal_payment_def payment_for_schedule_def
        schedule_outstanding_def min_def)
qed

lemma selected_one:
  "selected 7 [after_penalty_payments n] = [after_penalty_payments n]"
  by (simp add: selected_def after_penalty_payments_def example_installment_def)

lemma selected_two:
  "selected 7 [after_penalty_payments n, second_installment]
     = [after_penalty_payments n, second_installment]"
  by (simp add: selected_def after_penalty_payments_def example_installment_def
      second_installment_def)

lemma one_more_payment:
  assumes "n < 24"
  shows "allocate_to_schedules today (payment 50) [after_penalty_payments n]
           = [after_penalty_payments (Suc n)]"
    and "allocate_to_schedules today (payment 50) [after_penalty_payments n, second_installment]
           = [after_penalty_payments (Suc n), second_installment]"
proof -
  have pk: "RepaymentSchedule.pk (after_penalty_payments m) = 1"
    "RepaymentSchedule.pk second_installment = 2" for m
    by (simp_all add: after_penalty_payments_def example_installment_def second_installment_def)
  have l: "RepaymentTransaction.loan (payment 50) = 7" "amount (payment 50) = 50"
    by (simp_all add: payment_def)
  show "allocate_to_schedules today (payment 50) [after_penalty_payments n]
           = [after_penalty_payments (Suc n)]"
    using budget_penalty_again[OF assms]
    by (simp add: allocate_to_schedules_def l selected_one db_save_def
        pay_penalty_again[OF assms] pk)
  show "allocate_to_schedules today (payment 50) [after_penalty_payments n, second_installment]
           = [after_penalty_payments (Suc n), second_installment]"
    using budget_penalty_again[OF assms]
    by (simp add: allocate_to_schedules_def l selected_two db_save_def
        pay_penalty_again[OF assms] pk)
qed

lemma reached:
  "n \<le> 24 \<Longrightarrow>
   (allocate_to_schedules today (payment 50) ^^ n) [example_installment]
     = [after_penalty_payments n]
   \<and> (allocate_to_schedules today (payment 50) ^^ n) [example_installment, second_installment]
     = [after_penalty_payments n, second_installment]"
proof (induction n)
  case 0
  then show ?case by (simp add: after_penalty_payments_0)
next
  case (Suc n)
  then have "n < 24" by simp
  with Suc show ?case by (simp add: one_more_payment)
qed


text \<open>
  Claim C1 against the code. The penalty is to be paid first, capped at the installment's
  penalty outstanding. The allocator caps it at the stored \<open>penalty_outstanding\<close>,
  which the save never lowers. After a first payment of 50 has paid the penalty of 50 in
  full, a payment of 100 puts 50 into \<open>penalty_paid\<close> again and only 50 into
  \<open>interest_paid\<close>. After 22 such payments the installment still shows principal 1000,
  interest 200 and penalty 50 outstanding, and a payment of 300 is split 50, 150 and 0,
  not 50, 200 and 50.
\<close>

theorem paid_penalty_taken_again:
  "map (\<lambda>s. (principal_outstanding s, interest_outstanding s, penalty_outstanding s,
              penalty_paid s, interest_paid s, principal_paid s))
       (allocate_to_schedules 40 (payment 50) [example_installment])
     = [(1000, 200, 50, 50, 0, 0)]
   \<and> map (\<lambda>s. (principal_outstanding s, interest_outstanding s, penalty_outstanding s,
              penalty_paid s, interest_paid s, principal_paid s))
       (allocate_to_schedules 40 (payment 100)
          (allocate_to_schedules 40 (payment 50) [example_installment]))
     = [(1000, 150, 50, 100, 50, 0)]
   \<and> map (\<lambda>s. (principal_outstanding s, interest_outstanding s, penalty_outstanding s,
              penalty_paid s, interest_paid s, principal_paid s))
       ((allocate_to_schedules 40 (payment 50) ^^ 22) [example_installment])
     = [(1000, 200, 50, 1100, 0, 0)]
   \<and> map (\<lambda>s. (penalty_paid s, interest_paid s, principal_paid s))
       (allocate_to_schedules 40 (payment 300)
          ((allocate_to_schedules 40 (payment 50) ^^ 22) [example_installment]))
     = [(1150, 150, 0)]"
proof -
  have r1: "allocate_to_schedules 40 (payment 50) [example_installment]
      = [after_penalty_payments 1]"
    using reached[of 1 40] by simp
  have r22: "(allocate_to_schedules 40 (payment 50) ^^ 22) [example_installment]
      = [after_penalty_payments 22]"
    using reached[of 22 40] by simp
  have a: "map (\<lambda>s. (principal_outstanding s, interest_outstanding s, penalty_outstanding s,
              penalty_paid s, interest_paid s, principal_paid s)) [after_penalty_payments 1]
     = [(1000, 200, 50, 50, 0, 0)]"
    by (simp add: after_penalty_payments_def example_installment_def)
  have b: "map (\<lambda>s. (principal_outstanding s, interest_outstanding s, penalty_outstanding s,
              penalty_paid s, interest_paid s, principal_paid s))
       (allocate_to_schedules 40 (payment 100) [after_penalty_payments 1])
     = [(1000, 150, 50, 100, 50, 0)]"
    by (simp add: allocate_to_schedules_def selected_one payment_def)
       (simp add: after_penalty_payments_def example_installment_def payment_for_schedule_def
          schedule_outstanding_def allocated_def penalty_payment_def interest_payment_def
          principal_payment_def pay_def RepaymentSchedule_save_def db_save_def)
  have c: "map (\<lambda>s. (principal_outstanding s, interest_outstanding s, penalty_outstanding s,
              penalty_paid s, interest_paid s, principal_paid s)) [after_penalty_payments 22]
     = [(1000, 200, 50, 1100, 0, 0)]"
    by (simp add: after_penalty_payments_def example_installment_def)
  have d: "map (\<lambda>s. (penalty_paid s, interest_paid s, principal_paid s))
       (allocate_to_schedules 40 (payment 300) [after_penalty_payments 22])
     = [(1150, 150, 0)]"
    by (simp add: allocate_to_schedules_def selected_one payment_def)
       (simp add: after_penalty_payments_def example_installment_def payment_for_schedule_def
          schedule_outstanding_def allocated_def penalty_payment_def interest_payment_def
          principal_payment_def pay_def RepaymentSchedule_save_def db_save_def)
  show ?thesis using a b c d by (simp only: r1 r22 simp_thms)
qed

text \<open>
  Claim C5 against the code. Once its penalty of 50 is paid the installment owes 1200:
  principal 1000, interest 200 and no unpaid penalty, which is its \<open>total_outstanding\<close>.
  The next payment, of 1300, allocates 50 + 200 + 1000 = 1250 to it, more than it owed,
  and leaves \<open>total_outstanding\<close> at -50.
\<close>

theorem allocation_exceeds_outstanding:
  "map (\<lambda>s. (penalty_paid s, interest_paid s, principal_paid s, total_outstanding s))
       (allocate_to_schedules 40 (payment 50) [example_installment])
     = [(50, 0, 0, 1200)]
   \<and> map (\<lambda>s. (penalty_paid s, interest_paid s, principal_paid s, total_outstanding s))
       (allocate_to_schedules 40 (payment 1300)
          (allocate_to_schedules 40 (payment 50) [example_installment]))
     = [(100, 200, 1000, - 50)]
   \<and> (1200::rat) < (100 - 50) + (200 - 0) + (1000 - 0)"
proof -
  have r1: "allocate_to_schedules 40 (payment 50) [example_installment]
      = [after_penalty_payments 1]"
    using reached[of 1 40] by simp
  have a: "map (\<lambda>s. (penalty_paid s, interest_paid s, principal_paid s, total_outstanding s))
       [after_penalty_payments 1] = [(50, 0, 0, 1200)]"
    by (simp add: after_penalty_payments_def example_installment_def)
  have b: "map (\<lambda>s. (penalty_paid s, interest_paid s, principal_paid s, total_outstanding s))
       (allocate_to_schedules 40 (payment 1300) [after_penalty_payments 1])
     = [(100, 200, 1000, - 50)]"
    by (simp add: allocate_to_schedules_def selected_one payment_def)
       (simp add: after_penalty_payments_def example_installment_def payment_for_schedule_def
          schedule_outstanding_def allocated_def penalty_payment_def interest_payment_def
          principal_payment_def pay_def RepaymentSchedule_save_def db_save_def)
  have c: "(1200::rat) < (100 - 50) + (200 - 0) + (1000 - 0)" by simp
  show ?thesis using a b c by (simp only: r1 simp_thms)
qed


text \<open>
  Claim C6. Saving an installment sets its status from its fields and the current date
  alone: paid if \<open>total_paid \<ge> total_amount + penalty_outstanding\<close>, else partial if
  \<open>total_paid > 0\<close>, else overdue if the due date is before today, else pending.
\<close>

theorem status_recomputed_on_save:
  "status (RepaymentSchedule_save today s) =
     (if total_paid s \<ge> total_amount s + penalty_outstanding s then ''paid''
      else if total_paid s > 0 then ''partial''
      else if due_date s < today then ''overdue''
      else ''pending'')"
  by (simp add: RepaymentSchedule_save_def Let_def)

text \<open>
  The penalty part of claim C7 fails on the stored field. An installment with a penalty of
  50 and nothing paid receives 50: \<open>penalty_paid\<close> becomes 50 and the save leaves
  \<open>penalty_outstanding\<close> at 50, not at 50 - 50. The next payment of 50 is taken as
  penalty again.
\<close>

theorem penalty_outstanding_not_reduced:
  "penalty_outstanding example_installment = 50 \<and> penalty_paid example_installment = 0
   \<and> penalty_paid (pay 40 50 example_installment) = 50
   \<and> penalty_outstanding (pay 40 50 example_installment) = 50
   \<and> penalty_outstanding (pay 40 50 example_installment)
       \<noteq> 50 - penalty_paid (pay 40 50 example_installment)
   \<and> penalty_paid (pay 40 50 (pay 40 50 example_installment)) = 100"
  by (simp add: example_installment_def pay_def RepaymentSchedule_save_def allocated_def
      penalty_payment_def interest_payment_def principal_payment_def payment_for_schedule_def
      schedule_outstanding_def)

text \<open>
  Claim C7, as amended. After a save, \<open>principal_outstanding = principal_amount -
  principal_paid\<close> and \<open>interest_outstanding = interest_amount - interest_paid\<close>. The
  save does not recompute \<open>penalty_outstanding\<close>: the field keeps its value, and only
  \<open>total_outstanding\<close> nets the penalty, as \<open>principal_outstanding +
  interest_outstanding + penalty_outstanding - penalty_paid\<close>. The amounts and the paid
  fields are not changed by the save.
\<close>

theorem outstanding_after_save:
  "principal_outstanding (RepaymentSchedule_save today s) = principal_amount s - principal_paid s
   \<and> interest_outstanding (RepaymentSchedule_save today s) = interest_amount s - interest_paid s
   \<and> penalty_outstanding (RepaymentSchedule_save today s) = penalty_outstanding s
   \<and> total_outstanding (RepaymentSchedule_save today s)
       = principal_outstanding (RepaymentSchedule_save today s)
         + interest_outstanding (RepaymentSchedule_save today s)
         + (penalty_outstanding s - penalty_paid s)
   \<and> principal_amount (RepaymentSchedule_save today s) = principal_amount s
   \<and> principal_paid (RepaymentSchedule_save today s) = principal_paid s
   \<and> interest_amount (RepaymentSchedule_save today s) = interest_amount s
   \<and> interest_paid (RepaymentSchedule_save today s) = interest_paid s
   \<and> penalty_paid (RepaymentSchedule_save today s) = penalty_paid s"
  by (simp add: save_keeps save_outstanding)

subsection \<open>The loan ledger, the save of a payment, interest\<close>

lemma ledger_fields:
  "Loan.total_paid (fst (update_loan_balances today self loan_row table))
     = Loan.total_paid loan_row + amount self"
  "outstanding_balance (fst (update_loan_balances today self loan_row table))
     = max (outstanding_balance loan_row - RepaymentTransaction.principal_amount self) 0"
  "outstanding_interest (fst (update_loan_balances today self loan_row table))
     = max (outstanding_interest loan_row - RepaymentTransaction.interest_amount self) 0"
  "penalty_balance (fst (update_loan_balances today self loan_row table))
     = max (penalty_balance loan_row - penalty_amount self) 0"
  "Loan.principal_amount (fst (update_loan_balances today self loan_row table))
     = Loan.principal_amount loan_row"
  "total_interest (fst (update_loan_balances today self loan_row table)) = total_interest loan_row"
  "snd (update_loan_balances today self loan_row table) = allocate_to_schedules today self table"
  by (simp_all add: update_loan_balances_def Let_def)

lemma ledger_status:
  "Loan.status (fst (update_loan_balances today self loan_row table))
     = (if max (outstanding_balance loan_row - RepaymentTransaction.principal_amount self) 0
           + max (outstanding_interest loan_row - RepaymentTransaction.interest_amount self) 0
           + max (penalty_balance loan_row - penalty_amount self) 0 \<le> 1
        then ''completed'' else Loan.status loan_row)"
  by (simp add: update_loan_balances_def Let_def)

lemma save_completed:
  "RepaymentTransaction.status self = ''completed'' \<Longrightarrow>
   RepaymentTransaction_save generated today self loan_row table = Inr (self', loan', table') \<Longrightarrow>
   (loan', table') = update_loan_balances today (self\<lparr>transaction_number := transaction_number self'\<rparr>) loan_row table"
  by (auto simp add: RepaymentTransaction_save_def and_then_def Let_def
      split: sum.splits if_splits prod.splits)

text \<open>
  Claim C3, as amended. The ledger update of a completed payment adds the transaction's
  \<open>amount\<close> to \<open>total_paid\<close> and subtracts the transaction's own \<open>principal_amount\<close>,
  \<open>interest_amount\<close> and \<open>penalty_amount\<close> from \<open>outstanding_balance\<close>,
  \<open>outstanding_interest\<close> and \<open>penalty_balance\<close>, each clamped at zero from below.
  The new ledger does not depend on the installments or on what the allocator gives them.
\<close>

theorem ledger_update:
  "Loan.total_paid (fst (update_loan_balances today self loan_row table))
     = Loan.total_paid loan_row + amount self
   \<and> outstanding_balance (fst (update_loan_balances today self loan_row table))
     = max (outstanding_balance loan_row - RepaymentTransaction.principal_amount self) 0
   \<and> outstanding_interest (fst (update_loan_balances today self loan_row table))
     = max (outstanding_interest loan_row - RepaymentTransaction.interest_amount self) 0
   \<and> penalty_balance (fst (update_loan_balances today self loan_row table))
     = max (penalty_balance loan_row - penalty_amount self) 0
   \<and> 0 \<le> outstanding_balance (fst (update_loan_balances today self loan_row table))
   \<and> 0 \<le> outstanding_interest (fst (update_loan_balances today self loan_row table))
   \<and> 0 \<le> penalty_balance (fst (update_loan_balances today self loan_row table))
   \<and> fst (update_loan_balances today self loan_row table)
     = fst (update_loan_balances today' self loan_row table')"
  by (simp add: ledger_fields) (simp add: update_loan_balances_def Let_def)

text \<open>
  The claim as stated fails: a payment of 300 whose breakdown fields are left at their
  default 0 allocates 50 of penalty, 200 of interest and 50 of principal to the
  installment, and the three balances of the ledger stay at 1000, 200 and 50.
\<close>

theorem ledger_ignores_allocation:
  "RepaymentTransaction_save (Inl ValueError) 40 (payment 300) example_loan [example_installment]
     = Inr (payment 300,
            update_loan_balances 40 (payment 300) example_loan [example_installment])
   \<and> map (\<lambda>s. (penalty_paid s, interest_paid s, principal_paid s)) [example_installment]
     = [(0, 0, 0)]
   \<and> map (\<lambda>s. (penalty_paid s, interest_paid s, principal_paid s))
        (snd (update_loan_balances 40 (payment 300) example_loan [example_installment]))
     = [(50, 200, 50)]
   \<and> outstanding_balance example_loan = 1000
   \<and> outstanding_balance
        (fst (update_loan_balances 40 (payment 300) example_loan [example_installment])) = 1000
   \<and> outstanding_interest example_loan = 200
   \<and> outstanding_interest
        (fst (update_loan_balances 40 (payment 300) example_loan [example_installment])) = 200
   \<and> penalty_balance example_loan = 50
   \<and> penalty_balance
        (fst (update_loan_balances 40 (payment 300) example_loan [example_installment])) = 50"
proof -
  let ?u = "update_loan_balances 40 (payment 300) example_loan [example_installment]"
  have al: "allocate_to_schedules 40 (payment 300) [example_installment]
          = [pay 40 300 example_installment]"
    by (simp add: allocate_to_schedules_def selected_def payment_def)
       (simp add: example_installment_def payment_for_schedule_def schedule_outstanding_def
          db_save_def pay_paid)
  have paid: "penalty_paid (pay 40 300 example_installment) = 50
      \<and> interest_paid (pay 40 300 example_installment) = 200
      \<and> principal_paid (pay 40 300 example_installment) = 50"
    by (simp add: pay_paid penalty_payment_def interest_payment_def principal_payment_def
        payment_for_schedule_def schedule_outstanding_def example_installment_def)
  have 1: "RepaymentTransaction_save (Inl ValueError) 40 (payment 300) example_loan
             [example_installment] = Inr (payment 300, ?u)"
    by (cases ?u) (simp add: RepaymentTransaction_save_def and_then_def payment_def)
  have 2: "map (\<lambda>s. (penalty_paid s, interest_paid s, principal_paid s)) [example_installment]
     = [(0, 0, 0)]"
    by (simp add: example_installment_def)
  have 3: "map (\<lambda>s. (penalty_paid s, interest_paid s, principal_paid s)) (snd ?u)
     = [(50, 200, 50)]"
    by (simp add: ledger_fields al paid)
  have 4: "outstanding_balance example_loan = 1000 \<and> outstanding_interest example_loan = 200
      \<and> penalty_balance example_loan = 50"
    by (simp add: example_loan_def)
  have 5: "outstanding_balance (fst ?u) = 1000 \<and> outstanding_interest (fst ?u) = 200
      \<and> penalty_balance (fst ?u) = 50"
    by (simp add: ledger_fields) (simp add: example_loan_def payment_def)
  show ?thesis using 1 2 3 4 5 by (simp only: simp_thms)
qed


text \<open>
  Claim C4, as amended. The ledger update of a completed payment sets the loan's status to
  completed when the combined outstanding after the update is at most 1, and leaves the
  status as it was otherwise. The admin action sets every active loan of the queryset to
  completed and leaves its balances as they are.
\<close>

theorem completed_status:
  "Loan.status (fst (update_loan_balances today self loan_row table))
     = (if outstanding_balance (fst (update_loan_balances today self loan_row table))
           + outstanding_interest (fst (update_loan_balances today self loan_row table))
           + penalty_balance (fst (update_loan_balances today self loan_row table)) \<le> 1
        then ''completed'' else Loan.status loan_row)
   \<and> map Loan.status (fst (mark_as_completed queryset))
     = map (\<lambda>l. if Loan.status l = ''active'' then ''completed'' else Loan.status l) queryset
   \<and> map (\<lambda>l. (outstanding_balance l, outstanding_interest l, penalty_balance l))
        (fst (mark_as_completed queryset))
     = map (\<lambda>l. (outstanding_balance l, outstanding_interest l, penalty_balance l)) queryset"
  by (simp add: ledger_fields ledger_status mark_as_completed_def)

text \<open>
  The claim as stated fails in its only-if direction: the admin action completes an active
  loan whose combined outstanding is 1250.
\<close>

theorem completed_with_outstanding:
  "Loan.status example_loan = ''active''
   \<and> outstanding_balance example_loan + outstanding_interest example_loan
       + penalty_balance example_loan = 1250
   \<and> map (\<lambda>l. (Loan.status l,
                outstanding_balance l + outstanding_interest l + penalty_balance l))
        (fst (mark_as_completed [example_loan]))
     = [(''completed'', 1250)]"
  by (simp add: mark_as_completed_def example_loan_def)

lemma loop_nonpos_table: "amount self \<le> 0 \<Longrightarrow> allocate_to_schedules today self table = table"
  by (simp add: allocate_to_schedules_def loop_nonpos)

text \<open>
  Claim C9, as amended. The validator of \<open>amount\<close> rejects negative amounts only; zero
  passes. For every amount that is not positive the allocator changes no installment,
  whatever else the save does.
\<close>

theorem nonpositive_amount:
  "validate_amount self = (if amount self < 0 then Inl ValidationError else Inr ())
   \<and> (amount self \<le> 0 \<longrightarrow> allocate_to_schedules today self table = table)
   \<and> (amount self \<le> 0
        \<and> RepaymentTransaction_save generated today self loan_row table = Inr (self', loan', table')
      \<longrightarrow> table' = table)"
  by (auto simp add: validate_amount_def MinValueValidator_def loop_nonpos_table
      RepaymentTransaction_save_def and_then_def update_loan_balances_def Let_def
      split: sum.splits if_splits)

theorem nonpositive_amount_witness:
  "amount (payment 0) \<le> 0
   \<and> validate_amount (payment 0) = Inr ()
   \<and> allocate_to_schedules 40 (payment 0) [example_installment] = [example_installment]
   \<and> RepaymentTransaction_save (Inl ValueError) 40 (payment 0) example_loan [example_installment]
       = Inr (payment 0, fst (update_loan_balances 40 (payment 0) example_loan [example_installment]),
              [example_installment])"
proof -
  have a: "amount (payment 0) \<le> 0" by (simp add: payment_def)
  have s: "RepaymentTransaction_save (Inl ValueError) 40 (payment 0) example_loan [example_installment]
       = Inr (payment 0, fst (update_loan_balances 40 (payment 0) example_loan [example_installment]),
              snd (update_loan_balances 40 (payment 0) example_loan [example_installment]))"
    by (simp add: RepaymentTransaction_save_def and_then_def payment_def Let_def
        split: prod.splits)
  note th = nonpositive_amount [of "payment 0" 40 "[example_installment]" "Inl ValueError"
      example_loan "payment 0"
      "fst (update_loan_balances 40 (payment 0) example_loan [example_installment])"
      "snd (update_loan_balances 40 (payment 0) example_loan [example_installment])"]
  from th a s have t: "snd (update_loan_balances 40 (payment 0) example_loan [example_installment])
      = [example_installment]" by blast
  from th a have al: "allocate_to_schedules 40 (payment 0) [example_installment] = [example_installment]"
    by blast
  from th a have v: "validate_amount (payment 0) = Inr ()" by (simp add: payment_def)
  show ?thesis using a v al s t by simp
qed

text \<open>
  The claim as stated fails on the ledger. A payment of 0 with a principal breakdown of
  100 passes the validator and its save lowers \<open>outstanding_balance\<close> from 1000 to
  900. The save has no check of its own: a payment of -100 is refused by the validator
  only, and its save lowers \<open>total_paid\<close> by 100.
\<close>

theorem zero_amount_changes_ledger:
  "amount ((payment 0)\<lparr>RepaymentTransaction.principal_amount := 100\<rparr>) = 0
   \<and> validate_amount ((payment 0)\<lparr>RepaymentTransaction.principal_amount := 100\<rparr>) = Inr ()
   \<and> RepaymentTransaction_save (Inl ValueError) 40
        ((payment 0)\<lparr>RepaymentTransaction.principal_amount := 100\<rparr>) example_loan
        [example_installment]
       = Inr ((payment 0)\<lparr>RepaymentTransaction.principal_amount := 100\<rparr>,
              example_loan\<lparr>outstanding_balance := 900\<rparr>, [example_installment])
   \<and> outstanding_balance example_loan = 1000
   \<and> RepaymentTransaction_save (Inl ValueError) 40 (payment (- 100)) example_loan
        [example_installment]
       = Inr (payment (- 100), example_loan\<lparr>Loan.total_paid := - 100\<rparr>, [example_installment])
   \<and> Loan.total_paid example_loan = 0"
  by (simp add: validate_amount_def MinValueValidator_def RepaymentTransaction_save_def
      and_then_def update_loan_balances_def Let_def loop_nonpos_table payment_def
      example_loan_def)


lemma percentage_125: "decimal_mul (decimal_div 1500 1200) 100 = 125"
  by code_simp

lemma reducing_100: "decimal_mul (decimal_mul 1000 (decimal_div (decimal_div 10 100) 12)) 12 = 100"
  by code_simp

text \<open>
  Claim C10. Every save of a completed payment that goes through adds the whole
  \<open>amount\<close> to the loan's \<open>total_paid\<close>, and the save goes through whenever a
  transaction number is at hand. A payment of 1500 on a loan with 1250 outstanding,
  principal 1000 and total interest 200 brings \<open>total_paid\<close> to 1500, above 1200, and
  the completion percentage to 125.
\<close>

theorem total_paid_grows_by_amount:
  "(RepaymentTransaction.status self = ''completed''
      \<and> RepaymentTransaction_save generated today self loan_row table = Inr (self', loan', table')
    \<longrightarrow> Loan.total_paid loan' = Loan.total_paid loan_row + amount self)
   \<and> (\<exists>r. RepaymentTransaction_save (Inr n) today self loan_row table = Inr r)
   \<and> outstanding_balance example_loan + outstanding_interest example_loan
       + penalty_balance example_loan = 1250
   \<and> Loan.principal_amount example_loan + total_interest example_loan = 1200
   \<and> Loan.total_paid (fst (update_loan_balances today (payment 1500) example_loan table)) = 1500
   \<and> completion_percentage (fst (update_loan_balances today (payment 1500) example_loan table))
       = 125"
proof (intro conjI impI)
  assume a: "RepaymentTransaction.status self = ''completed''
      \<and> RepaymentTransaction_save generated today self loan_row table = Inr (self', loan', table')"
  then have "(loan', table')
      = update_loan_balances today (self\<lparr>transaction_number := transaction_number self'\<rparr>)
          loan_row table"
    by (intro save_completed[of self generated today loan_row table self' loan' table']) simp_all
  then have "loan' = fst (update_loan_balances today
      (self\<lparr>transaction_number := transaction_number self'\<rparr>) loan_row table)"
    by (metis fst_conv)
  then show "Loan.total_paid loan' = Loan.total_paid loan_row + amount self"
    by (simp add: ledger_fields)
next
  show "\<exists>r. RepaymentTransaction_save (Inr n) today self loan_row table = Inr r"
    by (simp add: RepaymentTransaction_save_def and_then_def Let_def split: prod.splits)
next
  show "outstanding_balance example_loan + outstanding_interest example_loan
       + penalty_balance example_loan = 1250"
    by (simp add: example_loan_def)
next
  show "Loan.principal_amount example_loan + total_interest example_loan = 1200"
    by (simp add: example_loan_def)
next
  show "Loan.total_paid (fst (update_loan_balances today (payment 1500) example_loan table)) = 1500"
    by (simp add: ledger_fields) (simp add: example_loan_def payment_def)
next
  show "completion_percentage (fst (update_loan_balances today (payment 1500) example_loan table))
       = 125"
    by (simp add: completion_percentage_def ledger_fields)
       (simp add: example_loan_def payment_def percentage_125)
qed

theorem total_paid_grows_by_amount_witness:
  "RepaymentTransaction.status (payment 1500) = ''completed''
   \<and> RepaymentTransaction_save (Inl ValueError) 40 (payment 1500) example_loan [example_installment]
       = Inr (payment 1500,
              fst (update_loan_balances 40 (payment 1500) example_loan [example_installment]),
              snd (update_loan_balances 40 (payment 1500) example_loan [example_installment]))
   \<and> Loan.total_paid
        (fst (update_loan_balances 40 (payment 1500) example_loan [example_installment]))
       = Loan.total_paid example_loan + amount (payment 1500)"
proof -
  have c: "RepaymentTransaction.status (payment 1500) = ''completed''" by (simp add: payment_def)
  have s: "RepaymentTransaction_save (Inl ValueError) 40 (payment 1500) example_loan
      [example_installment]
       = Inr (payment 1500,
              fst (update_loan_balances 40 (payment 1500) example_loan [example_installment]),
              snd (update_loan_balances 40 (payment 1500) example_loan [example_installment]))"
    by (simp add: RepaymentTransaction_save_def and_then_def payment_def Let_def
        split: prod.splits)
  from total_paid_grows_by_amount [of "payment 1500" "Inl ValueError" 40 example_loan
      "[example_installment]" "payment 1500"
      "fst (update_loan_balances 40 (payment 1500) example_loan [example_installment])"
      "snd (update_loan_balances 40 (payment 1500) example_loan [example_installment])"] c s
  have "Loan.total_paid
        (fst (update_loan_balances 40 (payment 1500) example_loan [example_installment]))
       = Loan.total_paid example_loan + amount (payment 1500)" by blast
  then show ?thesis using c s by simp
qed

text \<open>
  Claim C8 against the code. The reducing method returns \<open>amount * (rate / 12) *
  term_months\<close> in decimal arithmetic. Every other method multiplies a \<^verbatim>\<open>Decimal\<close> by
  the float \<^verbatim>\<open>term_months / 12\<close>, or raises a \<^verbatim>\<open>Decimal\<close> to it, and ends in a
  \<^verbatim>\<open>TypeError\<close>: for 1000 at 10 percent over 12 months the flat and the compound method
  raise, the reducing method returns 100.
\<close>

theorem calculated_interest_result:
  "calculated_interest truediv self =
     (if interest_calculation_method (loan_type self) = ''reducing'' then
        Inr (PyDecimal
          (decimal_mul
             (decimal_mul
                (case approved_amount self of
                   None \<Rightarrow> requested_amount self
                 | Some a \<Rightarrow> if a = 0 then requested_amount self else a)
                (decimal_div (decimal_div (interest_rate (loan_type self)) 100) 12))
             (of_int (term_months self))))
      else Inl TypeError)
   \<and> calculated_interest truediv (example_application ''flat'') = Inl TypeError
   \<and> calculated_interest truediv (example_application ''compound'') = Inl TypeError
   \<and> calculated_interest truediv (example_application ''reducing'') = Inr (PyDecimal 100)"
  by (simp add: calculated_interest_def and_then_def Let_def example_application_def reducing_100)

end
